theory Spec2Isabelle
  imports Main
begin

section \<open>Exceptions as values\<close>

text \<open>
  Every \<^verbatim>\<open>raise\<close> of \<^verbatim>\<open>client.py\<close>, and every exception one of its collaborators
  (the MCP session, the Anthropic SDK, the exit stack, \<^verbatim>\<open>input\<close>) may raise, is a value
  of type \<open>error\<close>: the exception's class and its message. The driver's
  \<^verbatim>\<open>except Exception\<close> catches the subclasses of \<^verbatim>\<open>Exception\<close> only, so the class
  records whether the exception is one (\<^verbatim>\<open>SystemExit\<close>, \<^verbatim>\<open>KeyboardInterrupt\<close> and
  \<^verbatim>\<open>asyncio.CancelledError\<close> are not).
\<close>

datatype exc_class =
    ValueError | IndexError | AttributeError | OtherException
  | SystemExit | OtherBaseException

datatype error = Raise exc_class string

fun is_Exception :: "error \<Rightarrow> bool" where
  "is_Exception (Raise SystemExit m) = False"
| "is_Exception (Raise OtherBaseException m) = False"
| "is_Exception (Raise c m) = True"

fun str_of_error :: "error \<Rightarrow> string" where
  "str_of_error (Raise c m) = m"

section \<open>Data model\<close>

text \<open>
  A content block of a model response is typed by its \<^verbatim>\<open>type\<close> tag at run time:
  \<^verbatim>\<open>'text'\<close> (with \<^verbatim>\<open>.text\<close>), \<^verbatim>\<open>'tool_use'\<close> (with \<^verbatim>\<open>.id\<close>, \<^verbatim>\<open>.name\<close>,
  \<^verbatim>\<open>.input\<close>), or any other tag, which \<^verbatim>\<open>process_query\<close> skips. The type \<open>'j\<close>
  stands for the opaque structured payloads the client only passes on: a tool's input,
  a tool's result content, a tool's input schema.
\<close>

datatype 'j block =
    Text string
  | ToolUse string string 'j
  | Other string

text \<open>
  \<^verbatim>\<open>block.text\<close>: only a text block has the attribute. The message of the
  \<^verbatim>\<open>AttributeError\<close> names the class of the block, which belongs to the SDK; the model
  keeps the rest of the message.
\<close>

fun text_of :: "'j block \<Rightarrow> error + string" where
  "text_of (Text t) = Inr t"
| "text_of (ToolUse i n a) =
     Inl (Raise AttributeError ''object has no attribute 'text' '')"
| "text_of (Other ty) =
     Inl (Raise AttributeError ''object has no attribute 'text' '')"

text \<open>\<^verbatim>\<open>response.content[0]\<close>: an empty list raises \<^verbatim>\<open>IndexError\<close>.\<close>

fun first_block :: "'j block list \<Rightarrow> error + 'j block" where
  "first_block [] = Inl (Raise IndexError ''list index out of range'')"
| "first_block (b # bs) = Inr b"

text \<open>\<^verbatim>\<open>response.content[0].text\<close>\<close>

definition first_text :: "'j block list \<Rightarrow> error + string" where
  "first_text response =
     (case first_block response of Inl e \<Rightarrow> Inl e | Inr b \<Rightarrow> text_of b)"

datatype role = User | Assistant

datatype 'j tool_result = ToolResult string 'j

text \<open>
  The content of a message of the history. The query message holds a string; the
  tool-result message holds a fresh one-element list. Every assistant message holds the
  \<^emph>\<open>same\<close> list object, \<^verbatim>\<open>assistant_message_content\<close>, which later iterations of the
  loop keep appending to: \<open>Buffer\<close> is that reference, and \<open>resolve\<close> reads it at the
  moment the history is sent to the model, where it has become \<open>Blocks\<close>.
\<close>

datatype 'j content =
    Str string
  | Buffer
  | Blocks "'j block list"
  | Results "'j tool_result list"

type_synonym 'j message = "role \<times> 'j content"

fun resolve_content :: "'j block list \<Rightarrow> 'j content \<Rightarrow> 'j content" where
  "resolve_content buf Buffer = Blocks buf"
| "resolve_content buf c = c"

definition resolve :: "'j block list \<Rightarrow> 'j message list \<Rightarrow> 'j message list" where
  "resolve buf ms = map (\<lambda>(r, c). (r, resolve_content buf c)) ms"

text \<open>A tool as the session lists it, and as the provider is told about it.\<close>

datatype 'j tool = Tool string "string option" 'j

datatype 'j tool_param = ToolParam string "string option" 'j

fun to_param :: "'j tool \<Rightarrow> 'j tool_param" where
  "to_param (Tool name description inputSchema) = ToolParam name description inputSchema"

fun tool_name :: "'j tool \<Rightarrow> string" where
  "tool_name (Tool name description inputSchema) = name"

text \<open>The keyword arguments of \<^verbatim>\<open>anthropic.messages.create\<close>.\<close>

datatype 'j request = Request string nat "'j message list" "'j tool_param list"

fun request_messages :: "'j request \<Rightarrow> 'j message list" where
  "request_messages (Request m k ms ts) = ms"

definition model_id :: string where
  "model_id = ''claude-sonnet-4-20250514''"

definition max_tokens :: nat where
  "max_tokens = 1000"

section \<open>Collaborators and the call trace\<close>

text \<open>
  What was printed: a line, or the connection banner with the list of tool names.
\<close>

datatype printed = Line string | Connected "string list"

text \<open>
  One event per call the client makes to a collaborator, recorded when the call is
  made, whether it returns or raises.
\<close>

datatype 'j event =
    EvStdioClient string "string list"
  | EvClientSession
  | EvInitialize
  | EvListTools
  | EvCreate "'j request"
  | EvCallTool string 'j
  | EvAclose
  | EvInput string
  | EvPrint printed
  | EvNewClient

text \<open>
  The collaborators are not in the repository: they are parameters. Each is a function
  of the state of the world \<open>'w\<close> (the subprocess, the server, the model provider, the
  session object and the exit stack of the client, standard input), which returns its
  result or the exception it raises, and the new state of the world. \<open>str_of\<close> is
  Python's \<^verbatim>\<open>str\<close> on a tool input.
\<close>

record ('w, 'j) env =
  stdio_client :: "string \<Rightarrow> string list \<Rightarrow> 'w \<Rightarrow> error option \<times> 'w"
  client_session :: "'w \<Rightarrow> error option \<times> 'w"
  session_initialize :: "'w \<Rightarrow> error option \<times> 'w"
  session_list_tools :: "'w \<Rightarrow> (error + 'j tool list) \<times> 'w"
  messages_create :: "'j request \<Rightarrow> 'w \<Rightarrow> (error + 'j block list) \<times> 'w"
  session_call_tool :: "string \<Rightarrow> 'j \<Rightarrow> 'w \<Rightarrow> (error + 'j) \<times> 'w"
  exit_stack_aclose :: "'w \<Rightarrow> error option \<times> 'w"
  read_input :: "'w \<Rightarrow> (error + string) \<times> 'w"
  new_client :: "'w \<Rightarrow> error option \<times> 'w"
  str_of :: "'j \<Rightarrow> string"

record ('w, 'j) sys =
  world :: 'w
  trace :: "'j event list"

definition emit :: "'j event \<Rightarrow> 'w \<Rightarrow> ('w, 'j) sys \<Rightarrow> ('w, 'j) sys" where
  "emit ev w s = \<lparr>world = w, trace = trace s @ [ev]\<rparr>"

definition list_tools ::
  "('w, 'j) env \<Rightarrow> ('w, 'j) sys \<Rightarrow> (error + 'j tool list) \<times> ('w, 'j) sys" where
  "list_tools env s =
     (case session_list_tools env (world s) of (r, w) \<Rightarrow> (r, emit EvListTools w s))"

definition create ::
  "('w, 'j) env \<Rightarrow> 'j message list \<Rightarrow> 'j tool_param list \<Rightarrow> ('w, 'j) sys
     \<Rightarrow> (error + 'j block list) \<times> ('w, 'j) sys" where
  "create env ms ts s =
     (case messages_create env (Request model_id max_tokens ms ts) (world s) of
        (r, w) \<Rightarrow> (r, emit (EvCreate (Request model_id max_tokens ms ts)) w s))"

definition call_tool ::
  "('w, 'j) env \<Rightarrow> string \<Rightarrow> 'j \<Rightarrow> ('w, 'j) sys \<Rightarrow> (error + 'j) \<times> ('w, 'j) sys" where
  "call_tool env n a s =
     (case session_call_tool env n a (world s) of (r, w) \<Rightarrow> (r, emit (EvCallTool n a) w s))"

definition print_out :: "printed \<Rightarrow> ('w, 'j) sys \<Rightarrow> ('w, 'j) sys" where
  "print_out p s = emit (EvPrint p) (world s) s"

section \<open>process\_query\<close>

text \<open>The local variables of \<^verbatim>\<open>process_query\<close> that the loop updates.\<close>

record 'j locals =
  messages :: "'j message list"
  assistant_message_content :: "'j block list"
  final_text :: "string list"

definition newline :: string where
  "newline = [CHR 0x0A]"

text \<open>\<^verbatim>\<open>sep.join(xs)\<close>\<close>

fun join :: "string \<Rightarrow> string list \<Rightarrow> string" where
  "join sep [] = []"
| "join sep [x] = x"
| "join sep (x # y # ys) = x @ sep @ join sep (y # ys)"

text \<open>\<^verbatim>\<open>f"[Calling tool {tool_name} with args {tool_args}]"\<close>\<close>

definition calling :: "('w, 'j) env \<Rightarrow> string \<Rightarrow> 'j \<Rightarrow> string" where
  "calling env n a = ''[Calling tool '' @ n @ '' with args '' @ str_of env a @ '']''"

text \<open>
  The loop \<^verbatim>\<open>for content in response.content\<close>. It runs over the blocks of the
  \<^emph>\<open>first\<close> response: the iterator is taken before the loop starts, and the assignment
  to \<^verbatim>\<open>response\<close> inside the loop rebinds the name only. Of the follow-up response the
  loop reads \<^verbatim>\<open>response.content[0].text\<close> and nothing else, so the rebound name is
  not part of the state. The result is the exception that left the loop, if any, with
  the local variables and the world at that point.
\<close>

fun for_content ::
  "('w, 'j) env \<Rightarrow> 'j tool_param list \<Rightarrow> 'j block list \<Rightarrow> 'j locals \<Rightarrow> ('w, 'j) sys
     \<Rightarrow> error option \<times> 'j locals \<times> ('w, 'j) sys" where
  "for_content env ts [] l s = (None, l, s)"
| "for_content env ts (Text t # cs) l s =
     for_content env ts cs
       (l\<lparr>final_text := final_text l @ [t],
          assistant_message_content := assistant_message_content l @ [Text t]\<rparr>) s"
| "for_content env ts (ToolUse i n a # cs) l s =
     (case call_tool env n a s of
        (Inl e, s1) \<Rightarrow> (Some e, l, s1)
      | (Inr result, s1) \<Rightarrow>
          (let l1 = l\<lparr>final_text := final_text l @ [calling env n a]\<rparr>;
               l2 = l1\<lparr>assistant_message_content :=
                          assistant_message_content l1 @ [ToolUse i n a]\<rparr>;
               l3 = l2\<lparr>messages := messages l2 @ [(Assistant, Buffer)]\<rparr>;
               l4 = l3\<lparr>messages := messages l3 @ [(User, Results [ToolResult i result])]\<rparr>
           in case create env (resolve (assistant_message_content l4) (messages l4)) ts s1 of
                (Inl e, s2) \<Rightarrow> (Some e, l4, s2)
              | (Inr response, s2) \<Rightarrow>
                  (case first_text response of
                     Inl e \<Rightarrow> (Some e, l4, s2)
                   | Inr t \<Rightarrow>
                       for_content env ts cs (l4\<lparr>final_text := final_text l4 @ [t]\<rparr>) s2)))"
| "for_content env ts (Other ty # cs) l s = for_content env ts cs l s"

text \<open>
  \<^verbatim>\<open>process_query\<close> up to its \<^verbatim>\<open>return\<close>, with the local variables kept for the
  theorems about the history.
\<close>

definition initial :: "string \<Rightarrow> 'j locals" where
  "initial query =
     \<lparr>messages = [(User, Str query)], assistant_message_content = [], final_text = []\<rparr>"

definition process_query_frame ::
  "('w, 'j) env \<Rightarrow> string \<Rightarrow> ('w, 'j) sys \<Rightarrow> error option \<times> 'j locals \<times> ('w, 'j) sys" where
  "process_query_frame env query s =
     (let l0 = initial query
      in case list_tools env s of
           (Inl e, s1) \<Rightarrow> (Some e, l0, s1)
         | (Inr tools, s1) \<Rightarrow>
             (let available_tools = map to_param tools
              in case create env (resolve (assistant_message_content l0) (messages l0))
                        available_tools s1 of
                   (Inl e, s2) \<Rightarrow> (Some e, l0, s2)
                 | (Inr response, s2) \<Rightarrow> for_content env available_tools response l0 s2))"

definition process_query ::
  "('w, 'j) env \<Rightarrow> string \<Rightarrow> ('w, 'j) sys \<Rightarrow> (error + string) \<times> ('w, 'j) sys" where
  "process_query env query s =
     (case process_query_frame env query s of
        (Some e, l, s') \<Rightarrow> (Inl e, s')
      | (None, l, s') \<Rightarrow> (Inr (join newline (final_text l)), s'))"

section \<open>connect\_to\_server and cleanup\<close>

text \<open>\<^verbatim>\<open>s.endswith(suf)\<close>\<close>

definition endswith :: "string \<Rightarrow> string \<Rightarrow> bool" where
  "endswith s suf = (length suf \<le> length s \<and> drop (length s - length suf) s = suf)"

text \<open>
  The extension is checked first; the subprocess is started by entering
  \<^verbatim>\<open>stdio_client(server_params)\<close>, then the session is entered, initialised and asked
  for its tools, whose names are printed.
\<close>

definition connect_to_server ::
  "('w, 'j) env \<Rightarrow> string \<Rightarrow> ('w, 'j) sys \<Rightarrow> error option \<times> ('w, 'j) sys" where
  "connect_to_server env server_script_path s =
     (let is_python = endswith server_script_path ''.py'';
          is_js = endswith server_script_path ''.js''
      in if \<not> (is_python \<or> is_js)
         then (Some (Raise ValueError ''Server script must be a .py or .js file''), s)
         else
           (let command = (if is_python then ''python'' else ''node'')
            in case stdio_client env command [server_script_path] (world s) of
                 (Some e, w1) \<Rightarrow>
                   (Some e, emit (EvStdioClient command [server_script_path]) w1 s)
               | (None, w1) \<Rightarrow>
                   (let s1 = emit (EvStdioClient command [server_script_path]) w1 s
                    in case client_session env (world s1) of
                         (Some e, w2) \<Rightarrow> (Some e, emit EvClientSession w2 s1)
                       | (None, w2) \<Rightarrow>
                           (let s2 = emit EvClientSession w2 s1
                            in case session_initialize env (world s2) of
                                 (Some e, w3) \<Rightarrow> (Some e, emit EvInitialize w3 s2)
                               | (None, w3) \<Rightarrow>
                                   (case list_tools env (emit EvInitialize w3 s2) of
                                      (Inl e, s4) \<Rightarrow> (Some e, s4)
                                    | (Inr tools, s4) \<Rightarrow>
                                        (None, print_out (Connected (map tool_name tools)) s4))))))"

text \<open>
  What \<^verbatim>\<open>connect_to_server\<close> does once \<^verbatim>\<open>stdio_client\<close> has been entered: the rest of
  its body, from entering the \<^verbatim>\<open>ClientSession\<close> to printing the tool names.
\<close>

definition after_launch :: "('w, 'j) env \<Rightarrow> ('w, 'j) sys \<Rightarrow> error option \<times> ('w, 'j) sys" where
  "after_launch env s1 =
     (case client_session env (world s1) of
        (Some e, w2) \<Rightarrow> (Some e, emit EvClientSession w2 s1)
      | (None, w2) \<Rightarrow>
          (let s2 = emit EvClientSession w2 s1
           in case session_initialize env (world s2) of
                (Some e, w3) \<Rightarrow> (Some e, emit EvInitialize w3 s2)
              | (None, w3) \<Rightarrow>
                  (case list_tools env (emit EvInitialize w3 s2) of
                     (Inl e, s4) \<Rightarrow> (Some e, s4)
                   | (Inr tools, s4) \<Rightarrow>
                       (None, print_out (Connected (map tool_name tools)) s4))))"

definition cleanup :: "('w, 'j) env \<Rightarrow> ('w, 'j) sys \<Rightarrow> error option \<times> ('w, 'j) sys" where
  "cleanup env s =
     (case exit_stack_aclose env (world s) of (r, w) \<Rightarrow> (r, emit EvAclose w s))"

section \<open>chat\_loop\<close>

text \<open>
  A \<open>char\<close> stands for one Unicode code point below 256, and a \<open>string\<close> for a
  Python \<^verbatim>\<open>str\<close> of such code points; a line with a code point from 256 on is not a
  value of the type. \<^verbatim>\<open>str.strip()\<close> removes the characters for which
  \<^verbatim>\<open>str.isspace\<close> holds: below 256 these are the code points 9 to 13, 28 to 32, 133
  (next line) and 160 (no-break space). \<^verbatim>\<open>str.lower()\<close> maps A to Z, and the capital
  letters 192 to 222 except the multiplication sign 215, to the code point 32 above;
  every other code point below 256 is left as it is.
\<close>

definition is_space :: "char \<Rightarrow> bool" where
  "is_space c =
     ((of_char c :: nat) \<in> {9, 10, 11, 12, 13, 28, 29, 30, 31, 32, 133, 160})"

definition strip :: "string \<Rightarrow> string" where
  "strip s = rev (dropWhile is_space (rev (dropWhile is_space s)))"

definition lower_char :: "char \<Rightarrow> char" where
  "lower_char c =
     (if (65 \<le> (of_char c :: nat) \<and> (of_char c :: nat) \<le> 90)
         \<or> (192 \<le> (of_char c :: nat) \<and> (of_char c :: nat) \<le> 222
              \<and> (of_char c :: nat) \<noteq> 215)
      then char_of ((of_char c :: nat) + 32) else c)"

definition lower :: "string \<Rightarrow> string" where
  "lower s = map lower_char s"

text \<open>
  \<^verbatim>\<open>input("\nQuery: ")\<close>: one line of standard input, or the exception
  (\<^verbatim>\<open>EOFError\<close>).
\<close>

definition input_line ::
  "('w, 'j) env \<Rightarrow> ('w, 'j) sys \<Rightarrow> (error + string) \<times> ('w, 'j) sys" where
  "input_line env s =
     (case read_input env (world s) of
        (r, w) \<Rightarrow> (r, emit (EvInput (newline @ ''Query: '')) w s))"

text \<open>\<^verbatim>\<open>print(f"\nError: {str(e)}")\<close>\<close>

definition report :: "error \<Rightarrow> ('w, 'j) sys \<Rightarrow> ('w, 'j) sys" where
  "report e s = print_out (Line (newline @ ''Error: '' @ str_of_error e)) s"

text \<open>
  The loop \<^verbatim>\<open>while True\<close> has no bound of its own: it ends at \<^verbatim>\<open>quit\<close>, or when an
  exception that is not an \<^verbatim>\<open>Exception\<close> leaves it. The model counts iterations
  down from a fuel; \<open>None\<close> is "still running when the fuel ran out". A result
  \<open>Some (None, s)\<close> is the \<^verbatim>\<open>break\<close>, \<open>Some (Some e, s)\<close> an exception that
  propagates. \<^verbatim>\<open>self.process_query\<close> is the function above.
\<close>

fun while_true ::
  "nat \<Rightarrow> ('w, 'j) env \<Rightarrow> ('w, 'j) sys \<Rightarrow> (error option \<times> ('w, 'j) sys) option" where
  "while_true 0 env s = None"
| "while_true (Suc k) env s =
     (case input_line env s of
        (Inl e, s1) \<Rightarrow>
          (if is_Exception e then while_true k env (report e s1) else Some (Some e, s1))
      | (Inr line, s1) \<Rightarrow>
          (let query = strip line
           in if lower query = ''quit'' then Some (None, s1)
              else
                (case process_query env query s1 of
                   (Inl e, s2) \<Rightarrow>
                     (if is_Exception e then while_true k env (report e s2)
                      else Some (Some e, s2))
                 | (Inr response, s2) \<Rightarrow>
                     while_true k env (print_out (Line (newline @ response)) s2))))"

definition chat_loop ::
  "nat \<Rightarrow> ('w, 'j) env \<Rightarrow> ('w, 'j) sys \<Rightarrow> (error option \<times> ('w, 'j) sys) option" where
  "chat_loop k env s =
     while_true k env
       (print_out (Line ''Type your queries or 'quit' to exit.'')
          (print_out (Line (newline @ ''MCP Client Started!'')) s))"

section \<open>main\<close>

text \<open>
  \<^verbatim>\<open>try: ... finally: await client.cleanup()\<close>: the cleanup runs on every exit of the
  \<^verbatim>\<open>try\<close> block; an exception it raises replaces the pending one, otherwise the
  pending one (if any) is raised again.

  The source's NOTE says that \<^verbatim>\<open>connect_to_server\<close>, \<^verbatim>\<open>chat_loop\<close> and \<^verbatim>\<open>cleanup\<close>
  are module-level functions, not methods of \<^verbatim>\<open>MCPClient\<close>, and must be moved into the
  class for \<^verbatim>\<open>client.connect_to_server(...)\<close> to work. \<open>methods_bound\<close> says whether
  that has been done: the file as it stands is \<open>methods_bound = False\<close>, where both
  attribute lookups raise \<^verbatim>\<open>AttributeError\<close>, the one in the \<^verbatim>\<open>finally\<close> block last.
\<close>

definition try_finally ::
  "('w, 'j) env \<Rightarrow> error option \<times> ('w, 'j) sys \<Rightarrow> error option \<times> ('w, 'j) sys" where
  "try_finally env body =
     (case body of (pending, s) \<Rightarrow>
        (case cleanup env s of
           (Some e, s') \<Rightarrow> (Some e, s')
         | (None, s') \<Rightarrow> (pending, s')))"

definition usage :: string where
  "usage = ''Usage: python client.py <path_to_server_script>''"

definition no_attribute :: "string \<Rightarrow> error" where
  "no_attribute name =
     Raise AttributeError (''MCPClient object has no attribute '' @ name)"

text \<open>The body of the \<^verbatim>\<open>try\<close> block: connect, then the chat loop.\<close>

definition try_block ::
  "nat \<Rightarrow> ('w, 'j) env \<Rightarrow> string \<Rightarrow> ('w, 'j) sys \<Rightarrow> (error option \<times> ('w, 'j) sys) option" where
  "try_block k env path s =
     (case connect_to_server env path s of
        (Some e, s1) \<Rightarrow> Some (Some e, s1)
      | (None, s1) \<Rightarrow> chat_loop k env s1)"

definition main ::
  "bool \<Rightarrow> nat \<Rightarrow> ('w, 'j) env \<Rightarrow> string list \<Rightarrow> ('w, 'j) sys
     \<Rightarrow> (error option \<times> ('w, 'j) sys) option" where
  "main methods_bound k env argv s =
     (if length argv < 2
      then Some (Some (Raise SystemExit ''1''), print_out (Line usage) s)
      else
        (case new_client env (world s) of
           (Some e, w0) \<Rightarrow> Some (Some e, emit EvNewClient w0 s)
         | (None, w0) \<Rightarrow>
             (let s0 = emit EvNewClient w0 s
              in if \<not> methods_bound then Some (Some (no_attribute ''cleanup''), s0)
                 else
                   (case try_block k env (argv ! 1) s0 of
                      None \<Rightarrow> None
                    | Some body \<Rightarrow> Some (try_finally env body)))))"

section \<open>Reading a trace\<close>

text \<open>The model calls and the tool calls of a trace, in order.\<close>

fun creates :: "'j event list \<Rightarrow> 'j request list" where
  "creates [] = []"
| "creates (EvCreate r # evs) = r # creates evs"
| "creates (ev # evs) = creates evs"

fun tool_calls :: "'j event list \<Rightarrow> (string \<times> 'j) list" where
  "tool_calls [] = []"
| "tool_calls (EvCallTool n a # evs) = (n, a) # tool_calls evs"
| "tool_calls (ev # evs) = tool_calls evs"

text \<open>The name and input of every tool-use block of a response, in order.\<close>

fun tool_uses :: "'j block list \<Rightarrow> (string \<times> 'j) list" where
  "tool_uses [] = []"
| "tool_uses (ToolUse i n a # bs) = (n, a) # tool_uses bs"
| "tool_uses (b # bs) = tool_uses bs"

fun texts :: "'j block list \<Rightarrow> string list" where
  "texts [] = []"
| "texts (Text t # bs) = t # texts bs"
| "texts (b # bs) = texts bs"

text \<open>
  The history after \<open>rs\<close> commits of the loop: one assistant message holding the
  buffer and one user message holding a single tool result, per commit.
\<close>

fun commits :: "'j tool_result list \<Rightarrow> 'j message list" where
  "commits [] = []"
| "commits (r # rs) = (Assistant, Buffer) # (User, Results [r]) # commits rs"

text \<open>
  The local variables after the appends of the tool-use branch, and the history as the
  follow-up call sends it.
\<close>

definition commit ::
  "('w, 'j) env \<Rightarrow> 'j locals \<Rightarrow> string \<Rightarrow> string \<Rightarrow> 'j \<Rightarrow> 'j \<Rightarrow> 'j locals" where
  "commit env l i n a result =
     l\<lparr>messages := messages l @ [(Assistant, Buffer), (User, Results [ToolResult i result])],
       assistant_message_content := assistant_message_content l @ [ToolUse i n a],
       final_text := final_text l @ [calling env n a]\<rparr>"

definition followup :: "'j locals \<Rightarrow> string \<Rightarrow> string \<Rightarrow> 'j \<Rightarrow> 'j \<Rightarrow> 'j message list" where
  "followup l i n a result =
     resolve (assistant_message_content l @ [ToolUse i n a])
       (messages l @ [(Assistant, Buffer), (User, Results [ToolResult i result])])"

text \<open>
  The first model response of a query: what the initial call of
  \<^verbatim>\<open>anthropic.messages.create\<close> returns, when the tools were listed.
\<close>

definition first_response ::
  "('w, 'j) env \<Rightarrow> string \<Rightarrow> ('w, 'j) sys \<Rightarrow> error + 'j block list" where
  "first_response env query s =
     (case list_tools env s of
        (Inl e, s1) \<Rightarrow> Inl e
      | (Inr tools, s1) \<Rightarrow> fst (create env [(User, Str query)] (map to_param tools) s1))"

text \<open>
  A history sent to the model ends matched when its last message is a user message
  with exactly one tool result, the message before it is an assistant message, and the
  last block of that assistant message is a tool-use block with the tool result's id.
\<close>

fun use_id :: "'j block \<Rightarrow> string option" where
  "use_id (ToolUse i n a) = Some i"
| "use_id b = None"

fun matched_rev :: "'j message list \<Rightarrow> bool" where
  "matched_rev ((User, Results [ToolResult i r]) # (Assistant, Blocks bs) # ms) =
     (bs \<noteq> [] \<and> use_id (last bs) = Some i)"
| "matched_rev ms = False"

definition ends_matched :: "'j message list \<Rightarrow> bool" where
  "ends_matched ms = matched_rev (rev ms)"

section \<open>A scripted environment\<close>

text \<open>
  A concrete world for running the client: the model's replies, the tool server's
  replies and the lines of standard input are scripts consumed from the front, and
  closing the exit stack fails when \<open>close_error\<close> says so. Tool inputs, tool
  results and schemas are numbers here.
\<close>

record script =
  model_script :: "(error + nat block list) list"
  tool_script :: "(error + nat) list"
  input_script :: "string list"
  close_error :: "error option"

definition scripted :: "(script, nat) env" where
  "scripted =
     \<lparr>stdio_client = (\<lambda>c a w. (None, w)),
      client_session = (\<lambda>w. (None, w)),
      session_initialize = (\<lambda>w. (None, w)),
      session_list_tools = (\<lambda>w. (Inr [Tool ''lookup'' None 0], w)),
      messages_create = (\<lambda>req w.
        case model_script w of
          [] \<Rightarrow> (Inl (Raise OtherException ''no reply''), w)
        | r # rs \<Rightarrow> (r, w\<lparr>model_script := rs\<rparr>)),
      session_call_tool = (\<lambda>n a w.
        case tool_script w of
          [] \<Rightarrow> (Inl (Raise OtherException ''no tool reply''), w)
        | r # rs \<Rightarrow> (r, w\<lparr>tool_script := rs\<rparr>)),
      exit_stack_aclose = (\<lambda>w. (close_error w, w)),
      read_input = (\<lambda>w.
        case input_script w of
          [] \<Rightarrow> (Inl (Raise OtherException ''EOF when reading a line''), w)
        | x # xs \<Rightarrow> (Inr x, w\<lparr>input_script := xs\<rparr>)),
      new_client = (\<lambda>w. (None, w)),
      str_of = (\<lambda>a. ''{}'')\<rparr>"

definition start :: "(error + nat block list) list \<Rightarrow> (error + nat) list \<Rightarrow> string list
    \<Rightarrow> error option \<Rightarrow> (script, nat) sys" where
  "start ms ts ins ce =
     \<lparr>world = \<lparr>model_script = ms, tool_script = ts, input_script = ins, close_error = ce\<rparr>,
      trace = []\<rparr>"

section \<open>Facts about the collaborator calls\<close>

lemma call_tool_trace:
  "call_tool env n a s = (r, s1) \<Longrightarrow> trace s1 = trace s @ [EvCallTool n a]"
  by (auto simp: call_tool_def emit_def split: prod.splits)

lemma create_trace:
  "create env ms ts s = (r, s1) \<Longrightarrow>
     trace s1 = trace s @ [EvCreate (Request model_id max_tokens ms ts)]"
  by (auto simp: create_def emit_def split: prod.splits)

lemma list_tools_trace:
  "list_tools env s = (r, s1) \<Longrightarrow> trace s1 = trace s @ [EvListTools]"
  by (auto simp: list_tools_def emit_def split: prod.splits)

lemma resolve_initial: "resolve [] [(User, Str q)] = [(User, Str q)]"
  by (simp add: resolve_def)

lemma followup_last: "last (followup l i n a result) = (User, Results [ToolResult i result])"
  by (simp add: followup_def resolve_def)

lemma followup_ends_matched: "ends_matched (followup l i n a result)"
  by (simp add: followup_def resolve_def ends_matched_def)

section \<open>Facts about the loop\<close>

lemma first_text_Nil: "first_text [] = Inl (Raise IndexError ''list index out of range'')"
  by (simp add: first_text_def)

lemma first_text_Text: "first_text (Text t # others) = Inr t"
  by (simp add: first_text_def)

lemma first_text_not_Text:
  "\<forall>t. b \<noteq> Text t \<Longrightarrow>
     first_text (b # others) = Inl (Raise AttributeError ''object has no attribute 'text' '')"
  by (cases b) (simp_all add: first_text_def)


lemma for_content_ToolUse:
  "for_content env ts (ToolUse i n a # cs) l s =
     (case call_tool env n a s of
        (Inl e, s1) \<Rightarrow> (Some e, l, s1)
      | (Inr result, s1) \<Rightarrow>
          (case create env (followup l i n a result) ts s1 of
             (Inl e, s2) \<Rightarrow> (Some e, commit env l i n a result, s2)
           | (Inr response, s2) \<Rightarrow>
               (case first_text response of
                  Inl e \<Rightarrow> (Some e, commit env l i n a result, s2)
                | Inr t \<Rightarrow>
                    for_content env ts cs
                      ((commit env l i n a result)
                         \<lparr>final_text := final_text l @ [calling env n a, t]\<rparr>) s2)))"
  by (cases l) (simp add: commit_def followup_def Let_def split: prod.splits sum.splits)

lemma for_content_ToolUse_cases:
  assumes "for_content env ts (ToolUse i n a # cs) l s = (r, l', s')"
  obtains
    (tool_error) e where "call_tool env n a s = (Inl e, s')" "r = Some e" "l' = l"
  | (create_error) result s1 e where
      "call_tool env n a s = (Inr result, s1)"
      "create env (followup l i n a result) ts s1 = (Inl e, s')"
      "r = Some e" "l' = commit env l i n a result"
  | (read_error) result s1 response e where
      "call_tool env n a s = (Inr result, s1)"
      "create env (followup l i n a result) ts s1 = (Inr response, s')"
      "first_text response = Inl e"
      "r = Some e" "l' = commit env l i n a result"
  | (continue) result s1 response s2 t where
      "call_tool env n a s = (Inr result, s1)"
      "create env (followup l i n a result) ts s1 = (Inr response, s2)"
      "first_text response = Inr t"
      "for_content env ts cs
         ((commit env l i n a result)\<lparr>final_text := final_text l @ [calling env n a, t]\<rparr>) s2
       = (r, l', s')"
  using assms unfolding for_content_ToolUse
  by (auto split: prod.splits sum.splits)

text \<open>
  The calls of the loop: no tool listing; the tool calls are the tool-use blocks of the
  scanned response, in order, up to the point the loop was left; one model call follows
  each tool call that returned.
\<close>

lemma for_content_events:
  "for_content env ts cs l s = (r, l', s') \<Longrightarrow>
     \<exists>evs. trace s' = trace s @ evs \<and> EvListTools \<notin> set evs
       \<and> (\<exists>rest. tool_uses cs = tool_calls evs @ rest \<and> (r = None \<longrightarrow> rest = []))
       \<and> length (creates evs) \<le> length (tool_calls evs)
       \<and> (r = None \<longrightarrow> length (creates evs) = length (tool_calls evs))"
proof (induction cs arbitrary: l s r l' s')
  case Nil
  then show ?case by simp
next
  case (Cons c cs)
  show ?case
  proof (cases c)
    case (Text t)
    with Cons.prems Cons.IH show ?thesis by simp
  next
    case (Other ty)
    with Cons.prems Cons.IH show ?thesis by simp
  next
    case (ToolUse i n a)
    with Cons.prems have run: "for_content env ts (ToolUse i n a # cs) l s = (r, l', s')"
      by simp
    from run show ?thesis
    proof (cases rule: for_content_ToolUse_cases)
      case (tool_error e)
      then have "trace s' = trace s @ [EvCallTool n a]"
        by (simp add: call_tool_trace)
      with tool_error ToolUse show ?thesis by simp
    next
      case (create_error result s1 e)
      then have "trace s' = trace s @ [EvCallTool n a,
          EvCreate (Request model_id max_tokens (followup l i n a result) ts)]"
        by (simp add: call_tool_trace create_trace)
      with create_error ToolUse show ?thesis by simp
    next
      case (read_error result s1 response e)
      then have "trace s' = trace s @ [EvCallTool n a,
          EvCreate (Request model_id max_tokens (followup l i n a result) ts)]"
        by (simp add: call_tool_trace create_trace)
      with read_error ToolUse show ?thesis by simp
    next
      case (continue result s1 response s2 t)
      have tr: "trace s2 = trace s @ [EvCallTool n a,
          EvCreate (Request model_id max_tokens (followup l i n a result) ts)]"
        using continue(1,2) by (simp add: call_tool_trace create_trace)
      from Cons.IH [OF continue(4)] obtain evs rest where
        evs: "trace s' = trace s2 @ evs" "EvListTools \<notin> set evs"
          "tool_uses cs = tool_calls evs @ rest" "r = None \<longrightarrow> rest = []"
          "length (creates evs) \<le> length (tool_calls evs)"
          "r = None \<longrightarrow> length (creates evs) = length (tool_calls evs)"
        by blast
      let ?evs = "[EvCallTool n a,
          EvCreate (Request model_id max_tokens (followup l i n a result) ts)] @ evs"
      have "trace s' = trace s @ ?evs" using tr evs(1) by simp
      moreover have "EvListTools \<notin> set ?evs" using evs(2) by simp
      moreover have "tool_uses (c # cs) = tool_calls ?evs @ rest"
        using evs(3) ToolUse by simp
      moreover have "length (creates ?evs) \<le> length (tool_calls ?evs)"
        using evs(5) by simp
      moreover have "r = None \<longrightarrow> length (creates ?evs) = length (tool_calls ?evs)"
        using evs(6) by simp
      ultimately show ?thesis using evs(4) by blast
    qed
  qed
qed

text \<open>Scanning a list of blocks is scanning a prefix, then the rest if no exception was raised.\<close>

lemma for_content_append:
  "for_content env ts (xs @ ys) l s =
     (case for_content env ts xs l s of
        (None, l1, s1) \<Rightarrow> for_content env ts ys l1 s1
      | (Some e, l1, s1) \<Rightarrow> (Some e, l1, s1))"
proof (induction xs arbitrary: l s)
  case Nil
  then show ?case by simp
next
  case (Cons c xs)
  show ?case
  proof (cases c)
    case (Text t)
    with Cons.IH show ?thesis by simp
  next
    case (Other ty)
    with Cons.IH show ?thesis by simp
  next
    case (ToolUse i n a)
    have "for_content env ts (ToolUse i n a # (xs @ ys)) l s =
       (case for_content env ts (ToolUse i n a # xs) l s of
          (None, l1, s1) \<Rightarrow> for_content env ts ys l1 s1
        | (Some e, l1, s1) \<Rightarrow> (Some e, l1, s1))"
      unfolding for_content_ToolUse
      by (simp add: Cons.IH split: prod.splits sum.splits)
    with ToolUse show ?thesis by simp
  qed
qed

text \<open>
  The history of the loop: every commit appends an assistant message and a tool-result
  message, each follow-up request ends with the tool-result message just appended, and
  ends matched.
\<close>

lemma for_content_history:
  "for_content env ts cs l s = (r, l', s') \<Longrightarrow>
     \<exists>evs rs. trace s' = trace s @ evs
       \<and> messages l' = messages l @ commits rs
       \<and> map (\<lambda>q. last (request_messages q)) (creates evs) = map (\<lambda>x. (User, Results [x])) rs
       \<and> list_all ends_matched (map request_messages (creates evs))"
proof (induction cs arbitrary: l s r l' s')
  case Nil
  then show ?case by simp
next
  case (Cons c cs)
  show ?case
  proof (cases c)
    case (Text t)
    with Cons.prems Cons.IH [of "l\<lparr>final_text := final_text l @ [t],
          assistant_message_content := assistant_message_content l @ [Text t]\<rparr>" s r l' s']
    show ?thesis by simp
  next
    case (Other ty)
    with Cons.prems Cons.IH show ?thesis by simp
  next
    case (ToolUse i n a)
    with Cons.prems have run: "for_content env ts (ToolUse i n a # cs) l s = (r, l', s')"
      by simp
    let ?req = "Request model_id max_tokens (followup l i n a result) ts"
    from run show ?thesis
    proof (cases rule: for_content_ToolUse_cases)
      case (tool_error e)
      then have "trace s' = trace s @ [EvCallTool n a]"
        by (simp add: call_tool_trace)
      moreover have "messages l' = messages l @ commits []"
        using tool_error by simp
      ultimately show ?thesis by force
    next
      case (create_error result s1 e)
      then have "trace s' = trace s @ [EvCallTool n a,
          EvCreate (Request model_id max_tokens (followup l i n a result) ts)]"
        by (simp add: call_tool_trace create_trace)
      moreover have "messages l' = messages l @ commits [ToolResult i result]"
        using create_error by (simp add: commit_def)
      ultimately show ?thesis
        by (intro exI [of _ "[EvCallTool n a,
          EvCreate (Request model_id max_tokens (followup l i n a result) ts)]"]
            exI [of _ "[ToolResult i result]"])
          (simp add: followup_last followup_ends_matched)
    next
      case (read_error result s1 response e)
      then have "trace s' = trace s @ [EvCallTool n a,
          EvCreate (Request model_id max_tokens (followup l i n a result) ts)]"
        by (simp add: call_tool_trace create_trace)
      moreover have "messages l' = messages l @ commits [ToolResult i result]"
        using read_error by (simp add: commit_def)
      ultimately show ?thesis
        by (intro exI [of _ "[EvCallTool n a,
          EvCreate (Request model_id max_tokens (followup l i n a result) ts)]"]
            exI [of _ "[ToolResult i result]"])
          (simp add: followup_last followup_ends_matched)
    next
      case (continue result s1 response s2 t)
      have tr: "trace s2 = trace s @ [EvCallTool n a,
          EvCreate (Request model_id max_tokens (followup l i n a result) ts)]"
        using continue(1,2) by (simp add: call_tool_trace create_trace)
      from Cons.IH [OF continue(4)] obtain evs rs where
        evs: "trace s' = trace s2 @ evs"
          "messages l' = messages ((commit env l i n a result)
             \<lparr>final_text := final_text l @ [calling env n a, t]\<rparr>) @ commits rs"
          "map (\<lambda>q. last (request_messages q)) (creates evs) = map (\<lambda>x. (User, Results [x])) rs"
          "list_all ends_matched (map request_messages (creates evs))"
        by blast
      have ms: "messages l' = messages l @ commits [ToolResult i result] @ commits rs"
        using evs(2) by (simp add: commit_def)
      let ?evs = "[EvCallTool n a,
          EvCreate (Request model_id max_tokens (followup l i n a result) ts)] @ evs"
      let ?rs = "ToolResult i result # rs"
      have "trace s' = trace s @ ?evs" using tr evs(1) by simp
      moreover have "messages l' = messages l @ commits ?rs" using ms by simp
      moreover have "map (\<lambda>q. last (request_messages q)) (creates ?evs)
          = map (\<lambda>x. (User, Results [x])) ?rs"
        using evs(3) by (simp add: followup_last)
      moreover have "list_all ends_matched (map request_messages (creates ?evs))"
        using evs(4) by (simp add: followup_ends_matched)
      ultimately show ?thesis by blast
    qed
  qed
qed

lemma for_content_no_tool_use:
  "tool_uses cs = [] \<Longrightarrow>
     for_content env ts cs l s =
       (None, l\<lparr>final_text := final_text l @ texts cs,
                assistant_message_content :=
                  assistant_message_content l @ filter (\<lambda>b. texts [b] \<noteq> []) cs\<rparr>, s)"
proof (induction cs arbitrary: l)
  case Nil
  then show ?case by simp
next
  case (Cons c cs)
  then show ?case by (cases c) simp_all
qed

section \<open>Facts about process\_query\<close>

lemma frame_list_tools_error:
  "list_tools env s = (Inl e, s1) \<Longrightarrow>
     process_query_frame env q s = (Some e, initial q, s1)"
  by (simp add: process_query_frame_def)

lemma frame_create_error:
  "list_tools env s = (Inr tools, s1) \<Longrightarrow>
   create env [(User, Str q)] (map to_param tools) s1 = (Inl e, s2) \<Longrightarrow>
     process_query_frame env q s = (Some e, initial q, s2)"
  by (simp add: process_query_frame_def initial_def resolve_initial)

lemma frame_loop:
  "list_tools env s = (Inr tools, s1) \<Longrightarrow>
   create env [(User, Str q)] (map to_param tools) s1 = (Inr response, s2) \<Longrightarrow>
     process_query_frame env q s = for_content env (map to_param tools) response (initial q) s2"
  by (simp add: process_query_frame_def initial_def resolve_initial)

lemma frame_cases:
  obtains
    (no_tools) e s1 where "list_tools env s = (Inl e, s1)"
      "process_query_frame env q s = (Some e, initial q, s1)"
      "first_response env q s = Inl e"
  | (no_response) tools s1 e s2 where "list_tools env s = (Inr tools, s1)"
      "create env [(User, Str q)] (map to_param tools) s1 = (Inl e, s2)"
      "process_query_frame env q s = (Some e, initial q, s2)"
      "first_response env q s = Inl e"
  | (loop) tools s1 response s2 where "list_tools env s = (Inr tools, s1)"
      "create env [(User, Str q)] (map to_param tools) s1 = (Inr response, s2)"
      "process_query_frame env q s = for_content env (map to_param tools) response (initial q) s2"
      "first_response env q s = Inr response"
proof (cases "list_tools env s")
  case (Pair r s1)
  show ?thesis
  proof (cases r)
    case (Inl e)
    with Pair no_tools show ?thesis
      by (simp add: frame_list_tools_error first_response_def)
  next
    case (Inr tools)
    show ?thesis
    proof (cases "create env [(User, Str q)] (map to_param tools) s1")
      case (Pair r2 s2)
      with \<open>list_tools env s = (r, s1)\<close> Inr no_response loop show ?thesis
        by (cases r2) (simp_all add: frame_create_error frame_loop first_response_def)
    qed
  qed
qed

text \<open>The definitions a concrete run unfolds.\<close>

lemmas run_defs =
  process_query_def process_query_frame_def first_response_def list_tools_def create_def
  call_tool_def emit_def scripted_def start_def resolve_def initial_def first_text_def
  calling_def Let_def newline_def model_id_def max_tokens_def

lemma process_query_of_frame:
  "process_query_frame env q s = (r, l', s') \<Longrightarrow>
     process_query env q s =
       (case r of Some e \<Rightarrow> Inl e | None \<Rightarrow> Inr (join newline (final_text l')), s')"
  by (simp add: process_query_def split: option.splits)

lemma frame_of_first_response:
  assumes "first_response env q s = Inr response"
  obtains tools s1 s2 where "list_tools env s = (Inr tools, s1)"
    "create env [(User, Str q)] (map to_param tools) s1 = (Inr response, s2)"
    "process_query_frame env q s = for_content env (map to_param tools) response (initial q) s2"
proof (cases rule: frame_cases [of env s q])
  case (no_tools e s1)
  with assms show ?thesis by simp
next
  case (no_response tools s1 e s2)
  with assms show ?thesis by simp
next
  case (loop tools s1 response' s2)
  with assms that show ?thesis by simp
qed

lemma frame_events:
  assumes "first_response env q s = Inr response"
    and "process_query_frame env q s = (r, l', s')"
  shows "\<exists>evs rest. trace s' = trace s @ evs
     \<and> tool_uses response = tool_calls evs @ rest \<and> (r = None \<longrightarrow> rest = [])
     \<and> length (creates evs) \<le> 1 + length (tool_calls evs)
     \<and> (r = None \<longrightarrow> length (creates evs) = 1 + length (tool_calls evs))"
proof -
  from assms(1) obtain tools s1 s2 where
    run: "list_tools env s = (Inr tools, s1)"
      "create env [(User, Str q)] (map to_param tools) s1 = (Inr response, s2)"
      "process_query_frame env q s = for_content env (map to_param tools) response (initial q) s2"
    by (rule frame_of_first_response)
  let ?pre = "[EvListTools, EvCreate (Request model_id max_tokens [(User, Str q)] (map to_param tools))]"
  have tr: "trace s2 = trace s @ ?pre"
    using run(1,2) by (simp add: list_tools_trace create_trace)
  from run(3) assms(2) have "for_content env (map to_param tools) response (initial q) s2 = (r, l', s')"
    by simp
  from for_content_events [OF this] obtain evs rest where
    evs: "trace s' = trace s2 @ evs"
      "tool_uses response = tool_calls evs @ rest" "r = None \<longrightarrow> rest = []"
      "length (creates evs) \<le> length (tool_calls evs)"
      "r = None \<longrightarrow> length (creates evs) = length (tool_calls evs)"
    by blast
  have "trace s' = trace s @ (?pre @ evs)" using tr evs(1) by simp
  moreover have "tool_uses response = tool_calls (?pre @ evs) @ rest" using evs(2) by simp
  moreover have "length (creates (?pre @ evs)) \<le> 1 + length (tool_calls (?pre @ evs))"
    using evs(4) by simp
  moreover have "r = None \<longrightarrow> length (creates (?pre @ evs)) = 1 + length (tool_calls (?pre @ evs))"
    using evs(5) by simp
  ultimately show ?thesis using evs(3) by blast
qed

lemma frame_history:
  assumes "process_query_frame env q s = (r, l', s')"
  shows "\<exists>evs rs. trace s' = trace s @ evs
       \<and> messages l' = (User, Str q) # commits rs
       \<and> map (\<lambda>q. last (request_messages q)) (tl (creates evs)) = map (\<lambda>x. (User, Results [x])) rs
       \<and> list_all ends_matched (map request_messages (tl (creates evs)))"
proof (cases rule: frame_cases [of env s q])
  case (no_tools e s1)
  with assms have "trace s' = trace s @ [EvListTools]" "messages l' = (User, Str q) # commits []"
    by (auto simp: list_tools_trace initial_def)
  then show ?thesis
    by (intro exI [of _ "[EvListTools]"] exI [of _ "[]"]) simp
next
  case (no_response tools s1 e s2)
  let ?pre = "[EvListTools, EvCreate (Request model_id max_tokens [(User, Str q)] (map to_param tools))]"
  from no_response assms have "trace s' = trace s @ ?pre" "messages l' = (User, Str q) # commits []"
    by (auto simp: list_tools_trace create_trace initial_def)
  then show ?thesis
    by (intro exI [of _ ?pre] exI [of _ "[]"]) simp
next
  case (loop tools s1 response s2)
  let ?pre = "[EvListTools, EvCreate (Request model_id max_tokens [(User, Str q)] (map to_param tools))]"
  have tr: "trace s2 = trace s @ ?pre"
    using loop(1,2) by (simp add: list_tools_trace create_trace)
  from loop(3) assms have "for_content env (map to_param tools) response (initial q) s2 = (r, l', s')"
    by simp
  from for_content_history [OF this] obtain evs rs where
    evs: "trace s' = trace s2 @ evs" "messages l' = messages (initial q) @ commits rs"
      "map (\<lambda>q. last (request_messages q)) (creates evs) = map (\<lambda>x. (User, Results [x])) rs"
      "list_all ends_matched (map request_messages (creates evs))"
    by blast
  have "trace s' = trace s @ (?pre @ evs)" using tr evs(1) by simp
  moreover have "messages l' = (User, Str q) # commits rs"
    using evs(2) by (simp add: initial_def)
  moreover have "map (\<lambda>q. last (request_messages q)) (tl (creates (?pre @ evs)))
      = map (\<lambda>x. (User, Results [x])) rs"
    using evs(3) by simp
  moreover have "list_all ends_matched (map request_messages (tl (creates (?pre @ evs))))"
    using evs(4) by simp
  ultimately show ?thesis by blast
qed

text \<open>
  The calls of a query are bounded by its first response: at most one model call more
  than the first response has tool-use blocks, at most as many tool calls as it has
  tool-use blocks, and exactly that many when the query returns normally.
\<close>

lemma model_calls_follow_first_response:
  assumes "first_response env q s = Inr response"
    and "process_query env q s = (out, s')"
  shows "\<exists>evs. trace s' = trace s @ evs
     \<and> length (creates evs) \<le> 1 + length (tool_uses response)
     \<and> length (tool_calls evs) \<le> length (tool_uses response)
     \<and> (\<forall>answer. out = Inr answer \<longrightarrow>
           length (creates evs) = 1 + length (tool_uses response)
         \<and> length (tool_calls evs) = length (tool_uses response))"
proof -
  obtain r l' s'' where fr: "process_query_frame env q s = (r, l', s'')"
    by (cases "process_query_frame env q s") auto
  from process_query_of_frame [OF fr] assms(2)
  have out: "s'' = s'" "out = (case r of Some e \<Rightarrow> Inl e | None \<Rightarrow> Inr (join newline (final_text l')))"
    by simp_all
  from frame_events [OF assms(1) fr] out(1) obtain evs rest where
    evs: "trace s' = trace s @ evs"
      "tool_uses response = tool_calls evs @ rest" "r = None \<longrightarrow> rest = []"
      "length (creates evs) \<le> 1 + length (tool_calls evs)"
      "r = None \<longrightarrow> length (creates evs) = 1 + length (tool_calls evs)"
    by blast
  have len: "length (tool_uses response) = length (tool_calls evs) + length rest"
    using evs(2) by simp
  have ret: "r = None" if "out = Inr answer" for answer
    using that out(2) by (cases r) simp_all
  have "length (creates evs) \<le> 1 + length (tool_uses response)"
    using evs(4) len by simp
  moreover have "length (tool_calls evs) \<le> length (tool_uses response)"
    using len by simp
  moreover have "\<forall>answer. out = Inr answer \<longrightarrow>
           length (creates evs) = 1 + length (tool_uses response)
         \<and> length (tool_calls evs) = length (tool_uses response)"
    using ret evs(3,5) len by auto
  ultimately show ?thesis using evs(1) by blast
qed

text \<open>
  The tool calls of a query are the names and inputs of the tool-use blocks of its first
  response, in order, up to the block at which an exception left the loop, and all of
  them when the query returns normally.
\<close>

lemma tool_calls_are_first_response_tool_uses:
  assumes "first_response env q s = Inr response"
    and "process_query env q s = (out, s')"
  shows "\<exists>evs rest. trace s' = trace s @ evs
     \<and> tool_uses response = tool_calls evs @ rest
     \<and> (\<forall>answer. out = Inr answer \<longrightarrow> rest = [])"
proof -
  obtain r l' s'' where fr: "process_query_frame env q s = (r, l', s'')"
    by (cases "process_query_frame env q s") auto
  from process_query_of_frame [OF fr] assms(2)
  have out: "s'' = s'" "out = (case r of Some e \<Rightarrow> Inl e | None \<Rightarrow> Inr (join newline (final_text l')))"
    by simp_all
  from frame_events [OF assms(1) fr] out(1) obtain evs rest where
    evs: "trace s' = trace s @ evs"
      "tool_uses response = tool_calls evs @ rest" "r = None \<longrightarrow> rest = []"
    by blast
  have "\<forall>answer. out = Inr answer \<longrightarrow> rest = []"
    using out(2) evs(3) by (cases r) simp_all
  with evs(1,2) show ?thesis by blast
qed

text \<open>
  The calls of a query start with the tool listing, which is the only one, and the
  first model call, if the listing returned, is sent the query message alone.
\<close>

lemma frame_starts_fresh:
  "\<exists>rest. trace (snd (snd (process_query_frame env q s))) = trace s @ EvListTools # rest
     \<and> EvListTools \<notin> set rest
     \<and> (case fst (session_list_tools env (world s)) of
           Inl e \<Rightarrow> rest = []
         | Inr tools \<Rightarrow>
             (\<exists>later. rest = EvCreate (Request model_id max_tokens [(User, Str q)]
                               (map to_param tools)) # later))"
proof (cases rule: frame_cases [of env s q])
  case (no_tools e s1)
  then have "fst (session_list_tools env (world s)) = Inl e"
    by (auto simp: list_tools_def split: prod.splits)
  with no_tools show ?thesis by (simp add: list_tools_trace)
next
  case (no_response tools s1 e s2)
  then have "fst (session_list_tools env (world s)) = Inr tools"
    by (auto simp: list_tools_def split: prod.splits)
  with no_response show ?thesis by (simp add: list_tools_trace create_trace)
next
  case (loop tools s1 response s2)
  then have lt: "fst (session_list_tools env (world s)) = Inr tools"
    by (auto simp: list_tools_def split: prod.splits)
  have tr: "trace s2 = trace s @ [EvListTools,
      EvCreate (Request model_id max_tokens [(User, Str q)] (map to_param tools))]"
    using loop(1,2) by (simp add: list_tools_trace create_trace)
  obtain r l' s' where fc: "for_content env (map to_param tools) response (initial q) s2 = (r, l', s')"
    by (cases "for_content env (map to_param tools) response (initial q) s2") auto
  from for_content_events [OF fc] obtain evs where
    "trace s' = trace s2 @ evs" "EvListTools \<notin> set evs"
    by blast
  with tr lt loop(3) fc show ?thesis by simp
qed

lemma process_query_snd: "snd (process_query env q s) = snd (snd (process_query_frame env q s))"
  by (simp add: process_query_def split: prod.splits option.splits)

section \<open>Facts about connect\_to\_server\<close>

lemma endswith_py_not_js: "endswith p ''.py'' \<Longrightarrow> \<not> endswith p ''.js''"
  by (auto simp: endswith_def)

lemma connect_launch:
  "endswith p ''.py'' \<or> endswith p ''.js'' \<Longrightarrow>
     connect_to_server env p s =
       (case stdio_client env (if endswith p ''.py'' then ''python'' else ''node'') [p] (world s) of
          (Some e, w1) \<Rightarrow>
            (Some e, emit (EvStdioClient (if endswith p ''.py'' then ''python'' else ''node'') [p]) w1 s)
        | (None, w1) \<Rightarrow>
            after_launch env
              (emit (EvStdioClient (if endswith p ''.py'' then ''python'' else ''node'') [p]) w1 s))"
proof (cases "endswith p ''.py''")
  case True
  then show ?thesis
    by (simp add: connect_to_server_def after_launch_def Let_def split: prod.splits option.splits)
next
  case False
  assume "endswith p ''.py'' \<or> endswith p ''.js''"
  with False have "endswith p ''.js''" by simp
  with False show ?thesis
    by (simp add: connect_to_server_def after_launch_def Let_def split: prod.splits option.splits)
qed

lemma after_launch_trace: "\<exists>rest. trace (snd (after_launch env s1)) = trace s1 @ rest"
  by (auto simp: after_launch_def Let_def emit_def list_tools_def print_out_def
      split: prod.splits option.splits sum.splits)

section \<open>Facts about chat\_loop\<close>

lemma report_sys:
  "world (report e s) = world s"
  "trace (report e s) = trace s @ [EvPrint (Line (newline @ ''Error: '' @ str_of_error e))]"
  by (simp_all add: report_def print_out_def emit_def)

lemmas loop_defs = input_line_def strip_def lower_def lower_char_def is_space_def
  report_def print_out_def

text \<open>
  White space beyond ASCII is stripped and capitals are lowered before the comparison
  with \<^verbatim>\<open>quit\<close>.
\<close>

lemma strip_lower_quit: "lower (strip (CHR 0xA0 # '' Quit'' @ [CHR 0x85])) = ''quit''"
  by code_simp

text \<open>The definitions a concrete run of \<open>main\<close> unfolds.\<close>

lemmas main_defs = main_def try_block_def try_finally_def cleanup_def chat_loop_def
  connect_to_server_def endswith_def usage_def no_attribute_def

section \<open>A scripted run up to the follow-up call\<close>

text \<open>
  In the scripted world, a first response of a text block, a tool-use block and a text
  block: the run up to the follow-up call, whose reply is left open.
\<close>

lemma scripted_reach:
  fixes followup_reply :: "nat block list"
  defines "s \<equiv> start [Inr [Text ''let me see'', ToolUse ''t1'' ''lookup'' 1, Text ''after''],
                       Inr followup_reply] [Inr 42] [] None"
  defines "l \<equiv> \<lparr>messages = [(User, Str ''hi'')],
                  assistant_message_content = [Text ''let me see''],
                  final_text = [''let me see'']\<rparr>"
  shows "list_tools scripted s = (Inr [Tool ''lookup'' None 0], snd (list_tools scripted s))"
    and "create scripted [(User, Str ''hi'')] (map to_param [Tool ''lookup'' None 0])
           (snd (list_tools scripted s))
         = (Inr ([Text ''let me see''] @ ToolUse ''t1'' ''lookup'' 1 # [Text ''after'']),
            snd (create scripted [(User, Str ''hi'')] (map to_param [Tool ''lookup'' None 0])
                   (snd (list_tools scripted s))))"
    and "for_content scripted (map to_param [Tool ''lookup'' None 0]) [Text ''let me see'']
           (initial ''hi'')
           (snd (create scripted [(User, Str ''hi'')] (map to_param [Tool ''lookup'' None 0])
                   (snd (list_tools scripted s))))
         = (None, l,
            snd (create scripted [(User, Str ''hi'')] (map to_param [Tool ''lookup'' None 0])
                   (snd (list_tools scripted s))))"
    and "call_tool scripted ''lookup'' 1
           (snd (create scripted [(User, Str ''hi'')] (map to_param [Tool ''lookup'' None 0])
                   (snd (list_tools scripted s))))
         = (Inr 42,
            snd (call_tool scripted ''lookup'' 1
              (snd (create scripted [(User, Str ''hi'')] (map to_param [Tool ''lookup'' None 0])
                      (snd (list_tools scripted s))))))"
    and "create scripted (followup l ''t1'' ''lookup'' 1 42) (map to_param [Tool ''lookup'' None 0])
           (snd (call_tool scripted ''lookup'' 1
              (snd (create scripted [(User, Str ''hi'')] (map to_param [Tool ''lookup'' None 0])
                      (snd (list_tools scripted s))))))
         = (Inr followup_reply,
            snd (create scripted (followup l ''t1'' ''lookup'' 1 42)
                   (map to_param [Tool ''lookup'' None 0])
              (snd (call_tool scripted ''lookup'' 1
                (snd (create scripted [(User, Str ''hi'')] (map to_param [Tool ''lookup'' None 0])
                      (snd (list_tools scripted s))))))))"
  unfolding s_def l_def by (simp_all add: run_defs)

section \<open>The claims\<close>

subsection \<open>C1: the loop after a tool call\<close>

text \<open>
  C1: after a response with a tool-use block is processed, the new response is scanned
  the same way, until a response has no tool-use block, so that a tool-use block of a
  follow-up response is executed too. The module's docstring (the client forwards any
  tool calls to the MCP server) and the docstring of \<^verbatim>\<open>process_query\<close> (executing any
  MCP tool calls as needed) say the same, and the loop does execute the tool-use blocks
  of the first response. The code breaks this on a follow-up response. In the run below
  the first response is one tool-use block \<open>t1\<close> and the follow-up response is a text
  block followed by a tool-use block \<open>t2\<close>: \<^verbatim>\<open>process_query\<close> returns normally after
  two model calls and one tool call, \<open>t2\<close> is never passed to the tool server, whose
  second reply is still unread, and the returned transcript does not mention \<open>t2\<close>.
\<close>

theorem follow_up_tool_use_not_executed:
  "first_response scripted ''hi''
      (start [Inr [ToolUse ''t1'' ''lookup'' 1], Inr [Text ''more'', ToolUse ''t2'' ''lookup'' 2]]
         [Inr 42, Inr 43] [] None)
     = Inr [ToolUse ''t1'' ''lookup'' 1]
   \<and> fst (process_query scripted ''hi''
      (start [Inr [ToolUse ''t1'' ''lookup'' 1], Inr [Text ''more'', ToolUse ''t2'' ''lookup'' 2]]
         [Inr 42, Inr 43] [] None))
     = Inr (''[Calling tool lookup with args {}]'' @ newline @ ''more'')
   \<and> tool_calls (trace (snd (process_query scripted ''hi''
      (start [Inr [ToolUse ''t1'' ''lookup'' 1], Inr [Text ''more'', ToolUse ''t2'' ''lookup'' 2]]
         [Inr 42, Inr 43] [] None))))
     = [(''lookup'', 1)]
   \<and> length (creates (trace (snd (process_query scripted ''hi''
      (start [Inr [ToolUse ''t1'' ''lookup'' 1], Inr [Text ''more'', ToolUse ''t2'' ''lookup'' 2]]
         [Inr 42, Inr 43] [] None)))))
     = 2
   \<and> tool_script (world (snd (process_query scripted ''hi''
      (start [Inr [ToolUse ''t1'' ''lookup'' 1], Inr [Text ''more'', ToolUse ''t2'' ''lookup'' 2]]
         [Inr 42, Inr 43] [] None))))
     = [Inr 43]"
  by (simp add: run_defs)

subsection \<open>C3: a response without tool-use blocks\<close>

text \<open>
  C3 says that a query whose first response has no tool-use block returns the
  concatenation of the response's text blocks. The code returns
  \<^verbatim>\<open>"\n".join(final_text)\<close>: with two text blocks \<open>a\<close> and \<open>b\<close> the result has a
  newline between them and is not their concatenation.
\<close>

theorem text_blocks_joined_by_newline:
  "first_response scripted ''hi'' (start [Inr [Text ''a'', Text ''b'']] [] [] None)
     = Inr [Text ''a'', Text ''b'']
   \<and> tool_uses [Text ''a'', Text ''b'' :: nat block] = []
   \<and> fst (process_query scripted ''hi'' (start [Inr [Text ''a'', Text ''b'']] [] [] None))
     = Inr (''a'' @ newline @ ''b'')
   \<and> ''a'' @ newline @ ''b'' \<noteq> concat (texts [Text ''a'', Text ''b'' :: nat block])"
  by (simp add: run_defs)


text \<open>
  C3 as amended. When the first response of a query has no tool-use block,
  \<^verbatim>\<open>process_query\<close> lists the tools, makes exactly one model call and no tool call,
  and returns the response's text blocks joined by newlines.
\<close>

theorem text_only_response_one_model_call:
  assumes "first_response env q s = Inr response"
    and "tool_uses response = []"
  shows "\<exists>s' req. process_query env q s = (Inr (join newline (texts response)), s')
     \<and> trace s' = trace s @ [EvListTools, EvCreate req]"
proof -
  from assms(1) obtain tools s1 s2 where
    run: "list_tools env s = (Inr tools, s1)"
      "create env [(User, Str q)] (map to_param tools) s1 = (Inr response, s2)"
      "process_query_frame env q s = for_content env (map to_param tools) response (initial q) s2"
    by (rule frame_of_first_response)
  have tr: "trace s2 = trace s @ [EvListTools,
      EvCreate (Request model_id max_tokens [(User, Str q)] (map to_param tools))]"
    using run(1,2) by (simp add: list_tools_trace create_trace)
  have "process_query env q s = (Inr (join newline (texts response)), s2)"
    using run(3) assms(2)
    by (simp add: process_query_def for_content_no_tool_use initial_def)
  with tr show ?thesis by blast
qed


theorem text_only_response_one_model_call_witness:
  "first_response scripted ''hi'' (start [Inr [Text ''Hello'']] [] [] None) = Inr [Text ''Hello'']
   \<and> tool_uses [Text ''Hello'' :: nat block] = []
   \<and> (\<exists>s' req. process_query scripted ''hi'' (start [Inr [Text ''Hello'']] [] [] None)
          = (Inr ''Hello'', s')
        \<and> trace s' = [EvListTools, EvCreate req])"
proof -
  have h1: "first_response scripted ''hi'' (start [Inr [Text ''Hello'']] [] [] None)
      = Inr [Text ''Hello'']"
    by (simp add: run_defs)
  have h2: "tool_uses [Text ''Hello'' :: nat block] = []"
    by simp
  have "trace (start [Inr [Text ''Hello'']] [] [] None) = []"
    by (simp add: start_def)
  with text_only_response_one_model_call [OF h1 h2] h1 h2 show ?thesis by simp
qed


subsection \<open>C2: committing the assistant buffer\<close>

text \<open>
  C2 says that for a response with tool-use blocks the pending buffer is committed
  exactly once, as a single assistant message, and not once per tool-use block. The
  code appends the assistant message inside the tool-use branch: a response with two
  tool-use blocks leaves two assistant messages in the history, each followed by its
  own tool-result message.
\<close>

theorem buffer_committed_per_tool_use:
  "first_response scripted ''hi''
      (start [Inr [ToolUse ''t1'' ''lookup'' 1, ToolUse ''t2'' ''other'' 2],
              Inr [Text ''x''], Inr [Text ''y'']] [Inr 42, Inr 43] [] None)
     = Inr [ToolUse ''t1'' ''lookup'' 1, ToolUse ''t2'' ''other'' 2]
   \<and> fst (process_query_frame scripted ''hi''
      (start [Inr [ToolUse ''t1'' ''lookup'' 1, ToolUse ''t2'' ''other'' 2],
              Inr [Text ''x''], Inr [Text ''y'']] [Inr 42, Inr 43] [] None)) = None
   \<and> messages (fst (snd (process_query_frame scripted ''hi''
      (start [Inr [ToolUse ''t1'' ''lookup'' 1, ToolUse ''t2'' ''other'' 2],
              Inr [Text ''x''], Inr [Text ''y'']] [Inr 42, Inr 43] [] None))))
     = [(User, Str ''hi''),
        (Assistant, Buffer), (User, Results [ToolResult ''t1'' 42]),
        (Assistant, Buffer), (User, Results [ToolResult ''t2'' 43])]"
  by (simp add: run_defs)


text \<open>
  C2 as amended. The buffer is committed once per executed tool-use block of the first
  response: the history of a query is the query message followed by pairs of an
  assistant message holding the buffer and a user message holding a single tool result,
  at most one pair per tool-use block of the first response, and exactly one pair per
  tool-use block when the loop ends without an exception. So a response with exactly
  one tool-use block is committed exactly once when the loop ends without an exception.
\<close>

theorem one_commit_per_tool_use:
  assumes "first_response env q s = Inr response"
    and "process_query_frame env q s = (r, l', s')"
  shows "\<exists>rs. messages l' = (User, Str q) # commits rs
     \<and> length rs \<le> length (tool_uses response)
     \<and> (r = None \<longrightarrow> length rs = length (tool_uses response))"
proof -
  from frame_events [OF assms] obtain evs rest where
    evs: "trace s' = trace s @ evs"
      "tool_uses response = tool_calls evs @ rest" "r = None \<longrightarrow> rest = []"
      "length (creates evs) \<le> 1 + length (tool_calls evs)"
      "r = None \<longrightarrow> length (creates evs) = 1 + length (tool_calls evs)"
    by blast
  from frame_history [OF assms(2)] obtain evs' rs where
    hist: "trace s' = trace s @ evs'" "messages l' = (User, Str q) # commits rs"
      "map (\<lambda>q. last (request_messages q)) (tl (creates evs')) = map (\<lambda>x. (User, Results [x])) rs"
    by blast
  have same: "evs' = evs" using evs(1) hist(1) by simp
  have "length (map (\<lambda>q. last (request_messages q)) (tl (creates evs)))
      = length (map (\<lambda>x. (User, Results [x])) rs)"
    using hist(3) same by simp
  then have len: "length rs = length (creates evs) - 1" by simp
  have total: "length (tool_uses response) = length (tool_calls evs) + length rest"
    using evs(2) by simp
  have "length rs \<le> length (tool_uses response)"
    using len evs(4) total by simp
  moreover have "r = None \<longrightarrow> length rs = length (tool_uses response)"
    using len evs(3,5) total by auto
  ultimately show ?thesis using hist(2) by blast
qed


theorem one_commit_per_tool_use_witness:
  "first_response scripted ''hi''
      (start [Inr [Text ''I look it up'', ToolUse ''t1'' ''lookup'' 1], Inr [Text ''done'']]
         [Inr 42] [] None)
     = Inr [Text ''I look it up'', ToolUse ''t1'' ''lookup'' 1]
   \<and> messages (fst (snd (process_query_frame scripted ''hi''
      (start [Inr [Text ''I look it up'', ToolUse ''t1'' ''lookup'' 1], Inr [Text ''done'']]
         [Inr 42] [] None))))
     = [(User, Str ''hi''), (Assistant, Buffer), (User, Results [ToolResult ''t1'' 42])]
   \<and> (\<exists>rs. commits rs = [(Assistant, Buffer), (User, Results [ToolResult ''t1'' (42::nat)])]
        \<and> length rs = 1)"
proof -
  let ?s = "start [Inr [Text ''I look it up'', ToolUse ''t1'' ''lookup'' 1], Inr [Text ''done'']]
         [Inr 42] [] None"
  have h1: "first_response scripted ''hi'' ?s = Inr [Text ''I look it up'', ToolUse ''t1'' ''lookup'' 1]"
    by (simp add: run_defs)
  have ms: "messages (fst (snd (process_query_frame scripted ''hi'' ?s)))
     = [(User, Str ''hi''), (Assistant, Buffer), (User, Results [ToolResult ''t1'' 42])]"
    by (simp add: run_defs)
  have h2: "process_query_frame scripted ''hi'' ?s
      = (None, fst (snd (process_query_frame scripted ''hi'' ?s)),
         snd (snd (process_query_frame scripted ''hi'' ?s)))"
    by (simp add: run_defs)
  from one_commit_per_tool_use [OF h1 h2] ms have
    "\<exists>rs. commits rs = [(Assistant, Buffer), (User, Results [ToolResult ''t1'' (42::nat)])]
        \<and> length rs = 1"
    by auto
  with h1 ms show ?thesis by simp
qed


subsection \<open>C4: the tool calls of a response\<close>

text \<open>
  C4: for every model response, each tool-use block causes exactly one tool call, with
  the block's name and input, in the order of the blocks. The loop does this for the
  first response of a query (\<open>tool_calls_are_first_response_tool_uses\<close> above), as the
  docstrings say it does for any tool call. A follow-up response is a model response
  too, and the code breaks the claim there: below, the second response holds a tool-use
  block \<open>a2\<close> for \<open>get_forecast\<close> with input 7, the query returns with no model reply
  left, and the only tool call made is \<open>get_alerts\<close> with input 5.
\<close>

theorem follow_up_tool_use_causes_no_call:
  "first_response scripted ''weather?''
      (start [Inr [ToolUse ''a1'' ''get_alerts'' 5],
              Inr [Text ''checking'', ToolUse ''a2'' ''get_forecast'' 7]]
         [Inr 10, Inr 11] [] None)
     = Inr [ToolUse ''a1'' ''get_alerts'' 5]
   \<and> creates (trace (snd (process_query scripted ''weather?''
      (start [Inr [ToolUse ''a1'' ''get_alerts'' 5],
              Inr [Text ''checking'', ToolUse ''a2'' ''get_forecast'' 7]]
         [Inr 10, Inr 11] [] None))))
     = [Request model_id max_tokens [(User, Str ''weather?'')] [ToolParam ''lookup'' None 0],
        Request model_id max_tokens
          [(User, Str ''weather?''), (Assistant, Blocks [ToolUse ''a1'' ''get_alerts'' 5]),
           (User, Results [ToolResult ''a1'' 10])] [ToolParam ''lookup'' None 0]]
   \<and> model_script (world (snd (process_query scripted ''weather?''
      (start [Inr [ToolUse ''a1'' ''get_alerts'' 5],
              Inr [Text ''checking'', ToolUse ''a2'' ''get_forecast'' 7]]
         [Inr 10, Inr 11] [] None)))) = []
   \<and> tool_calls (trace (snd (process_query scripted ''weather?''
      (start [Inr [ToolUse ''a1'' ''get_alerts'' 5],
              Inr [Text ''checking'', ToolUse ''a2'' ''get_forecast'' 7]]
         [Inr 10, Inr 11] [] None))))
     = [(''get_alerts'', 5)]"
  by (simp add: run_defs)

subsection \<open>C6: a fresh history and one tool listing per query\<close>





subsection \<open>C7: the tool result references the tool-use block before it\<close>

text \<open>
  C7. Every append of a tool-result message is followed at once by a follow-up model
  call, so the tool-result messages of the history are, in order, the last messages of
  the follow-up requests. Each follow-up request, as the list objects stand when it is
  sent, ends with an assistant message whose last block is a tool-use block, followed by
  a user message with exactly one tool result, whose \<^verbatim>\<open>tool_use_id\<close> is the id of that
  tool-use block.
\<close>

theorem tool_result_references_preceding_tool_use:
  assumes "process_query_frame env q s = (r, l', s')"
  shows "\<exists>evs rs. trace s' = trace s @ evs
       \<and> messages l' = (User, Str q) # commits rs
       \<and> map (\<lambda>q. last (request_messages q)) (tl (creates evs)) = map (\<lambda>x. (User, Results [x])) rs
       \<and> list_all ends_matched (map request_messages (tl (creates evs)))"
  using assms by (rule frame_history)


theorem tool_result_references_preceding_tool_use_witness:
  "\<exists>evs rs. trace (snd (snd (process_query_frame scripted ''hi''
      (start [Inr [ToolUse ''t1'' ''lookup'' 1, ToolUse ''t2'' ''other'' 2],
              Inr [Text ''x''], Inr [Text ''y'']] [Inr 42, Inr 43] [] None)))) = evs
     \<and> [(User, Str ''hi''),
        (Assistant, Buffer), (User, Results [ToolResult ''t1'' 42]),
        (Assistant, Buffer), (User, Results [ToolResult ''t2'' 43])]
       = (User, Str ''hi'') # commits rs
     \<and> map (\<lambda>q. last (request_messages q)) (tl (creates evs)) = map (\<lambda>x. (User, Results [x])) rs
     \<and> list_all ends_matched (map request_messages (tl (creates evs)))"
proof -
  let ?s = "start [Inr [ToolUse ''t1'' ''lookup'' 1, ToolUse ''t2'' ''other'' 2],
              Inr [Text ''x''], Inr [Text ''y'']] [Inr 42, Inr 43] [] None"
  have ms: "messages (fst (snd (process_query_frame scripted ''hi'' ?s)))
     = [(User, Str ''hi''),
        (Assistant, Buffer), (User, Results [ToolResult ''t1'' 42]),
        (Assistant, Buffer), (User, Results [ToolResult ''t2'' 43])]"
    by (simp add: run_defs)
  have h: "process_query_frame scripted ''hi'' ?s
      = (fst (process_query_frame scripted ''hi'' ?s),
         fst (snd (process_query_frame scripted ''hi'' ?s)),
         snd (snd (process_query_frame scripted ''hi'' ?s)))"
    by simp
  have "trace ?s = []"
    by (simp add: start_def)
  with tool_result_references_preceding_tool_use [OF h] ms show ?thesis by simp
qed


subsection \<open>C5: the interpreter is chosen by the extension\<close>

text \<open>
  C5. A path that ends neither in \<^verbatim>\<open>.py\<close> nor in \<^verbatim>\<open>.js\<close> makes
  \<^verbatim>\<open>connect_to_server\<close> raise the \<^verbatim>\<open>ValueError\<close> that is the spec's UnsupportedScript,
  with no call made and the world untouched, so before any subprocess is started. For a
  path that ends in \<^verbatim>\<open>.py\<close> the first call is \<^verbatim>\<open>stdio_client\<close> applied to the command
  \<^verbatim>\<open>python\<close>, with the path as the only argument, in the world as it was: when that
  call raises, \<^verbatim>\<open>connect_to_server\<close> raises the same error in the world the call left,
  and when it returns, \<^verbatim>\<open>connect_to_server\<close> goes on from the world the call left. A
  path that ends in \<^verbatim>\<open>.js\<close> is launched in the same way with the command \<^verbatim>\<open>node\<close>.
\<close>

theorem interpreter_chosen_by_extension:
  "(\<not> endswith p ''.py'' \<and> \<not> endswith p ''.js'' \<longrightarrow>
      connect_to_server env p s
        = (Some (Raise ValueError ''Server script must be a .py or .js file''), s))
   \<and> (endswith p ''.py'' \<longrightarrow>
        connect_to_server env p s =
          (case stdio_client env ''python'' [p] (world s) of
             (Some e, w1) \<Rightarrow> (Some e, emit (EvStdioClient ''python'' [p]) w1 s)
           | (None, w1) \<Rightarrow> after_launch env (emit (EvStdioClient ''python'' [p]) w1 s))
      \<and> (\<exists>rest. trace (snd (connect_to_server env p s))
           = trace s @ EvStdioClient ''python'' [p] # rest))
   \<and> (endswith p ''.js'' \<longrightarrow>
        connect_to_server env p s =
          (case stdio_client env ''node'' [p] (world s) of
             (Some e, w1) \<Rightarrow> (Some e, emit (EvStdioClient ''node'' [p]) w1 s)
           | (None, w1) \<Rightarrow> after_launch env (emit (EvStdioClient ''node'' [p]) w1 s))
      \<and> (\<exists>rest. trace (snd (connect_to_server env p s))
           = trace s @ EvStdioClient ''node'' [p] # rest))"
proof (intro conjI impI)
  assume "\<not> endswith p ''.py'' \<and> \<not> endswith p ''.js''"
  then show "connect_to_server env p s
        = (Some (Raise ValueError ''Server script must be a .py or .js file''), s)"
    by (simp add: connect_to_server_def)
next
  assume py: "endswith p ''.py''"
  then show eq: "connect_to_server env p s =
          (case stdio_client env ''python'' [p] (world s) of
             (Some e, w1) \<Rightarrow> (Some e, emit (EvStdioClient ''python'' [p]) w1 s)
           | (None, w1) \<Rightarrow> after_launch env (emit (EvStdioClient ''python'' [p]) w1 s))"
    using connect_launch [of p env s] by simp
  show "\<exists>rest. trace (snd (connect_to_server env p s))
           = trace s @ EvStdioClient ''python'' [p] # rest"
  proof (cases "stdio_client env ''python'' [p] (world s)")
    case (Pair r w1)
    obtain rest where "trace (snd (after_launch env (emit (EvStdioClient ''python'' [p]) w1 s)))
        = trace (emit (EvStdioClient ''python'' [p]) w1 s) @ rest"
      using after_launch_trace by blast
    with eq Pair show ?thesis by (cases r) (simp_all add: emit_def)
  qed
next
  assume js: "endswith p ''.js''"
  then have npy: "\<not> endswith p ''.py''" using endswith_py_not_js by blast
  with js show eq: "connect_to_server env p s =
          (case stdio_client env ''node'' [p] (world s) of
             (Some e, w1) \<Rightarrow> (Some e, emit (EvStdioClient ''node'' [p]) w1 s)
           | (None, w1) \<Rightarrow> after_launch env (emit (EvStdioClient ''node'' [p]) w1 s))"
    using connect_launch [of p env s] by simp
  show "\<exists>rest. trace (snd (connect_to_server env p s))
           = trace s @ EvStdioClient ''node'' [p] # rest"
  proof (cases "stdio_client env ''node'' [p] (world s)")
    case (Pair r w1)
    obtain rest where "trace (snd (after_launch env (emit (EvStdioClient ''node'' [p]) w1 s)))
        = trace (emit (EvStdioClient ''node'' [p]) w1 s) @ rest"
      using after_launch_trace by blast
    with eq Pair show ?thesis by (cases r) (simp_all add: emit_def)
  qed
qed


theorem interpreter_chosen_by_extension_witness:
  "connect_to_server scripted ''server.txt'' (start [] [] [] None)
        = (Some (Raise ValueError ''Server script must be a .py or .js file''),
           start [] [] [] None)
   \<and> connect_to_server scripted ''weather.py'' (start [] [] [] None)
        = (None,
           \<lparr>world = \<lparr>model_script = [], tool_script = [], input_script = [],
                     close_error = None\<rparr>,
            trace = [EvStdioClient ''python'' [''weather.py''], EvClientSession, EvInitialize,
                     EvListTools, EvPrint (Connected [''lookup''])]\<rparr>)
   \<and> connect_to_server
        (scripted\<lparr>stdio_client := (\<lambda>c a w. (Some (Raise OtherException ''cannot start''), w))\<rparr>)
        ''build/index.js'' (start [] [] [] None)
        = (Some (Raise OtherException ''cannot start''),
           \<lparr>world = \<lparr>model_script = [], tool_script = [], input_script = [],
                     close_error = None\<rparr>,
            trace = [EvStdioClient ''node'' [''build/index.js'']]\<rparr>)"
proof -
  have a: "\<not> endswith ''server.txt'' ''.py'' \<and> \<not> endswith ''server.txt'' ''.js''"
    by (simp add: endswith_def)
  have b: "endswith ''weather.py'' ''.py''"
    by (simp add: endswith_def)
  have c: "endswith ''build/index.js'' ''.js''"
    by (simp add: endswith_def)
  from interpreter_chosen_by_extension [of "''server.txt''" scripted "start [] [] [] None"] a
  have 1: "connect_to_server scripted ''server.txt'' (start [] [] [] None)
        = (Some (Raise ValueError ''Server script must be a .py or .js file''),
           start [] [] [] None)"
    by blast
  from interpreter_chosen_by_extension [of "''weather.py''" scripted "start [] [] [] None"] b
  have "connect_to_server scripted ''weather.py'' (start [] [] [] None) =
          (case stdio_client scripted ''python'' [''weather.py''] (world (start [] [] [] None)) of
             (Some e, w1) \<Rightarrow>
               (Some e, emit (EvStdioClient ''python'' [''weather.py'']) w1 (start [] [] [] None))
           | (None, w1) \<Rightarrow>
               after_launch scripted
                 (emit (EvStdioClient ''python'' [''weather.py'']) w1 (start [] [] [] None)))"
    by blast
  then have 2: "connect_to_server scripted ''weather.py'' (start [] [] [] None)
        = (None,
           \<lparr>world = \<lparr>model_script = [], tool_script = [], input_script = [],
                     close_error = None\<rparr>,
            trace = [EvStdioClient ''python'' [''weather.py''], EvClientSession, EvInitialize,
                     EvListTools, EvPrint (Connected [''lookup''])]\<rparr>)"
    by (simp add: after_launch_def scripted_def start_def emit_def list_tools_def print_out_def)
  let ?env = "scripted\<lparr>stdio_client :=
      (\<lambda>c a w. (Some (Raise OtherException ''cannot start''), w))\<rparr>"
  from interpreter_chosen_by_extension [of "''build/index.js''" ?env "start [] [] [] None"] c
  have "connect_to_server ?env ''build/index.js'' (start [] [] [] None) =
          (case stdio_client ?env ''node'' [''build/index.js''] (world (start [] [] [] None)) of
             (Some e, w1) \<Rightarrow>
               (Some e, emit (EvStdioClient ''node'' [''build/index.js'']) w1 (start [] [] [] None))
           | (None, w1) \<Rightarrow>
               after_launch ?env
                 (emit (EvStdioClient ''node'' [''build/index.js'']) w1 (start [] [] [] None)))"
    by blast
  then have 3: "connect_to_server ?env ''build/index.js'' (start [] [] [] None)
        = (Some (Raise OtherException ''cannot start''),
           \<lparr>world = \<lparr>model_script = [], tool_script = [], input_script = [],
                     close_error = None\<rparr>,
            trace = [EvStdioClient ''node'' [''build/index.js'']]\<rparr>)"
    by (simp add: start_def emit_def)
  from 1 2 3 show ?thesis by blast
qed


subsection \<open>C10: the follow-up response is read through the text of its first block\<close>

text \<open>
  C10. Take a query whose loop reaches a tool-use block of the first response (the
  blocks \<open>pre\<close> before it were scanned without an exception), whose tool call returns
  and whose follow-up model call returns \<open>response\<close>. If \<open>response\<close> is empty,
  \<^verbatim>\<open>process_query\<close> raises \<^verbatim>\<open>IndexError\<close>; if its first block is not a text block,
  \<^verbatim>\<open>process_query\<close> raises \<^verbatim>\<open>AttributeError\<close>; in both cases no further call is made.
  If its first block is a text block, the loop goes on with the remaining blocks of the
  first response, in a state that holds the text of that block and nothing else of
  \<open>response\<close>.
\<close>

theorem follow_up_read_through_first_text_block:
  assumes "list_tools env s = (Inr tools, sa)"
    and "create env [(User, Str q)] (map to_param tools) sa = (Inr (pre @ ToolUse i n a # cs), sb)"
    and "for_content env (map to_param tools) pre (initial q) sb = (None, l, sc)"
    and "call_tool env n a sc = (Inr result, sd)"
    and "create env (followup l i n a result) (map to_param tools) sd = (Inr response, se)"
  shows "(response = [] \<longrightarrow>
            process_query env q s = (Inl (Raise IndexError ''list index out of range''), se))
     \<and> (\<forall>b others. response = b # others \<and> (\<forall>t. b \<noteq> Text t) \<longrightarrow>
            process_query env q s
              = (Inl (Raise AttributeError ''object has no attribute 'text' ''), se))
     \<and> (\<forall>t others. response = Text t # others \<longrightarrow>
            process_query_frame env q s
              = for_content env (map to_param tools) cs
                  ((commit env l i n a result)
                     \<lparr>final_text := final_text l @ [calling env n a, t]\<rparr>) se)"
proof -
  have fr: "process_query_frame env q s
      = for_content env (map to_param tools) (ToolUse i n a # cs) l sc"
    using frame_loop [OF assms(1,2)] assms(3) by (simp add: for_content_append)
  have step: "for_content env (map to_param tools) (ToolUse i n a # cs) l sc
      = (case first_text response of
           Inl e \<Rightarrow> (Some e, commit env l i n a result, se)
         | Inr t \<Rightarrow>
             for_content env (map to_param tools) cs
               ((commit env l i n a result)
                  \<lparr>final_text := final_text l @ [calling env n a, t]\<rparr>) se)"
    unfolding for_content_ToolUse using assms(4,5) by simp
  have 1: "response = [] \<longrightarrow>
      process_query env q s = (Inl (Raise IndexError ''list index out of range''), se)"
    using fr step by (simp add: process_query_def first_text_Nil)
  have 2: "\<forall>b others. response = b # others \<and> (\<forall>t. b \<noteq> Text t) \<longrightarrow>
      process_query env q s = (Inl (Raise AttributeError ''object has no attribute 'text' ''), se)"
    using fr step by (auto simp: process_query_def first_text_not_Text)
  have 3: "\<forall>t others. response = Text t # others \<longrightarrow>
      process_query_frame env q s
        = for_content env (map to_param tools) cs
            ((commit env l i n a result)
               \<lparr>final_text := final_text l @ [calling env n a, t]\<rparr>) se"
    using fr step by (auto simp: first_text_Text)
  from 1 2 3 show ?thesis by blast
qed



theorem follow_up_read_through_first_text_block_witness:
  "fst (process_query scripted ''hi''
      (start [Inr [Text ''let me see'', ToolUse ''t1'' ''lookup'' 1, Text ''after''], Inr []]
         [Inr 42] [] None))
     = Inl (Raise IndexError ''list index out of range'')
   \<and> fst (process_query scripted ''hi''
      (start [Inr [Text ''let me see'', ToolUse ''t1'' ''lookup'' 1, Text ''after''],
              Inr [ToolUse ''t9'' ''lookup'' 3, Text ''late'']]
         [Inr 42] [] None))
     = Inl (Raise AttributeError ''object has no attribute 'text' '')
   \<and> fst (process_query scripted ''hi''
      (start [Inr [Text ''let me see'', ToolUse ''t1'' ''lookup'' 1, Text ''after''],
              Inr [Text ''42 it is'', ToolUse ''t9'' ''lookup'' 3]]
         [Inr 42] [] None))
     = Inr (join newline [''let me see'', ''[Calling tool lookup with args {}]'',
                          ''42 it is'', ''after''])"
proof -
  note a = follow_up_read_through_first_text_block [OF scripted_reach [of "[]"]]
  note b = follow_up_read_through_first_text_block
             [OF scripted_reach [of "[ToolUse ''t9'' ''lookup'' 3, Text ''late'']"]]
  note c = follow_up_read_through_first_text_block
             [OF scripted_reach [of "[Text ''42 it is'', ToolUse ''t9'' ''lookup'' 3]"]]
  have 1: "fst (process_query scripted ''hi''
      (start [Inr [Text ''let me see'', ToolUse ''t1'' ''lookup'' 1, Text ''after''], Inr []]
         [Inr 42] [] None))
     = Inl (Raise IndexError ''list index out of range'')"
    using a by simp
  have 2: "fst (process_query scripted ''hi''
      (start [Inr [Text ''let me see'', ToolUse ''t1'' ''lookup'' 1, Text ''after''],
              Inr [ToolUse ''t9'' ''lookup'' 3, Text ''late'']]
         [Inr 42] [] None))
     = Inl (Raise AttributeError ''object has no attribute 'text' '')"
    using b by simp
  have 3: "fst (process_query scripted ''hi''
      (start [Inr [Text ''let me see'', ToolUse ''t1'' ''lookup'' 1, Text ''after''],
              Inr [Text ''42 it is'', ToolUse ''t9'' ''lookup'' 3]]
         [Inr 42] [] None))
     = Inr (join newline [''let me see'', ''[Calling tool lookup with args {}]'',
                          ''42 it is'', ''after''])"
    using c
    by (simp add: process_query_def commit_def calling_def scripted_def)
  from 1 2 3 show ?thesis by blast
qed


subsection \<open>C8: an error of one query ends that query only\<close>

text \<open>
  C8. When a line is read that is not \<^verbatim>\<open>quit\<close> and \<^verbatim>\<open>process_query\<close> raises an error
  (an \<^verbatim>\<open>Exception\<close>, which is what \<^verbatim>\<open>except Exception\<close> catches) for it, the driver
  loop prints the error and goes on with its next iteration, in the world the failed
  query left and with nothing else of that query: its history is gone with the call.
  Any later query starts by listing the tools and, when they are listed, sends the model
  a history that holds that query's text alone.
\<close>

theorem query_error_caught_loop_continues:
  assumes "input_line env s = (Inr line, s1)"
    and "lower (strip line) \<noteq> ''quit''"
    and "process_query env (strip line) s1 = (Inl e, s2)"
    and "is_Exception e"
  shows "while_true (Suc k) env s = while_true k env (report e s2)
     \<and> world (report e s2) = world s2
     \<and> trace (report e s2) = trace s2 @ [EvPrint (Line (newline @ ''Error: '' @ str_of_error e))]
     \<and> (\<forall>q2. \<exists>rest.
           trace (snd (process_query env q2 (report e s2)))
             = trace (report e s2) @ EvListTools # rest
         \<and> (case fst (session_list_tools env (world s2)) of
               Inl e2 \<Rightarrow> rest = []
             | Inr tools \<Rightarrow>
                 (\<exists>later. rest = EvCreate (Request model_id max_tokens [(User, Str q2)]
                                   (map to_param tools)) # later)))"
proof -
  have loop: "while_true (Suc k) env s = while_true k env (report e s2)"
    using assms by (simp add: Let_def)
  have next_query: "\<exists>rest.
           trace (snd (process_query env q2 (report e s2)))
             = trace (report e s2) @ EvListTools # rest
         \<and> (case fst (session_list_tools env (world s2)) of
               Inl e2 \<Rightarrow> rest = []
             | Inr tools \<Rightarrow>
                 (\<exists>later. rest = EvCreate (Request model_id max_tokens [(User, Str q2)]
                                   (map to_param tools)) # later))" for q2
    using frame_starts_fresh [of env q2 "report e s2"]
    by (auto simp: process_query_snd report_sys(1))
  from loop next_query show ?thesis by (simp add: report_sys)
qed


theorem query_error_caught_loop_continues_witness:
  "while_true (Suc (Suc (Suc 0))) scripted
      (start [Inr [ToolUse ''t1'' ''lookup'' 1], Inr [Text ''fine'']]
         [Inl (Raise OtherException ''tool failed'')] [''first'', ''second'', ''quit''] None)
   = Some (None,
       \<lparr>world = \<lparr>model_script = [], tool_script = [], input_script = [], close_error = None\<rparr>,
        trace =
          [EvInput (newline @ ''Query: ''),
           EvListTools,
           EvCreate (Request model_id max_tokens [(User, Str ''first'')]
                       [ToolParam ''lookup'' None 0]),
           EvCallTool ''lookup'' 1,
           EvPrint (Line (newline @ ''Error: tool failed'')),
           EvInput (newline @ ''Query: ''),
           EvListTools,
           EvCreate (Request model_id max_tokens [(User, Str ''second'')]
                       [ToolParam ''lookup'' None 0]),
           EvPrint (Line (newline @ ''fine'')),
           EvInput (newline @ ''Query: '')]\<rparr>)"
proof -
  let ?s = "start [Inr [ToolUse ''t1'' ''lookup'' 1], Inr [Text ''fine'']]
         [Inl (Raise OtherException ''tool failed'')] [''first'', ''second'', ''quit''] None"
  have h1: "input_line scripted ?s = (Inr ''first'', snd (input_line scripted ?s))"
    by (simp add: loop_defs run_defs)
  have h2: "lower (strip ''first'') \<noteq> ''quit''"
    by (simp add: loop_defs)
  have h3: "process_query scripted (strip ''first'') (snd (input_line scripted ?s))
      = (Inl (Raise OtherException ''tool failed''),
         snd (process_query scripted (strip ''first'') (snd (input_line scripted ?s))))"
    by (simp add: loop_defs run_defs)
  have h4: "is_Exception (Raise OtherException ''tool failed'')"
    by simp
  from query_error_caught_loop_continues [OF h1 h2 h3 h4, of "Suc (Suc 0)"]
  have "while_true (Suc (Suc (Suc 0))) scripted ?s
      = while_true (Suc (Suc 0)) scripted
          (report (Raise OtherException ''tool failed'')
            (snd (process_query scripted (strip ''first'') (snd (input_line scripted ?s)))))"
    by blast
  then show ?thesis
    by (simp add: loop_defs run_defs)
qed


subsection \<open>C9: an error of the cleanup\<close>

text \<open>
  C9 says that an error raised while releasing resources is never propagated past the
  top level, and is logged instead. The code has no handler and no log: \<^verbatim>\<open>cleanup\<close> is
  the one call \<^verbatim>\<open>await self.exit_stack.aclose()\<close>, and \<^verbatim>\<open>main\<close> calls it in a
  \<^verbatim>\<open>finally\<close> block with nothing around it. In the first run below the user types
  \<^verbatim>\<open>quit\<close>, closing the exit stack fails, and \<^verbatim>\<open>main\<close> ends with that error. The second
  run is the file as it stands, where \<^verbatim>\<open>cleanup\<close> is not a method of the client: the
  \<^verbatim>\<open>AttributeError\<close> raised in the \<^verbatim>\<open>finally\<close> block leaves \<^verbatim>\<open>main\<close> too.
\<close>

theorem cleanup_error_propagates:
  "map_option fst (main True (Suc (Suc 0)) scripted [''client.py'', ''weather.py'']
      (start [] [] [''quit''] (Some (Raise OtherException ''close failed''))))
     = Some (Some (Raise OtherException ''close failed''))
   \<and> map_option fst (main False (Suc (Suc 0)) scripted [''client.py'', ''weather.py'']
      (start [] [] [''quit''] None))
     = Some (Some (Raise AttributeError ''MCPClient object has no attribute cleanup''))"
  by (simp add: main_defs loop_defs run_defs)


text \<open>
  C9 as amended. An error raised while releasing resources is propagated: \<^verbatim>\<open>cleanup\<close>
  returns whatever closing the exit stack raises, and whenever the \<^verbatim>\<open>try\<close> block of
  \<^verbatim>\<open>main\<close> ends, with or without a pending error, and the cleanup raises, \<^verbatim>\<open>main\<close>
  raises the error of the cleanup, after the one call that closes the exit stack.
\<close>

theorem cleanup_error_leaves_main:
  assumes "2 \<le> length argv"
    and "new_client env (world s) = (None, w0)"
    and "try_block k env (argv ! 1) (emit EvNewClient w0 s) = Some (pending, sb)"
    and "exit_stack_aclose env (world sb) = (Some e, w')"
  shows "cleanup env sb = (Some e, emit EvAclose w' sb)
     \<and> main True k env argv s = Some (Some e, emit EvAclose w' sb)"
  using assms by (simp add: main_def try_finally_def cleanup_def)


theorem cleanup_error_leaves_main_witness:
  "main True (Suc (Suc 0)) scripted [''client.py'', ''server.txt'']
      (start [] [] [''quit''] (Some (Raise OtherException ''close failed'')))
     = Some (Some (Raise OtherException ''close failed''),
         \<lparr>world = \<lparr>model_script = [], tool_script = [], input_script = [''quit''],
                   close_error = Some (Raise OtherException ''close failed'')\<rparr>,
          trace = [EvNewClient, EvAclose]\<rparr>)"
proof -
  let ?s = "start [] [] [''quit''] (Some (Raise OtherException ''close failed''))"
  let ?w = "\<lparr>model_script = [], tool_script = [], input_script = [''quit''],
             close_error = Some (Raise OtherException ''close failed'')\<rparr>"
  have h1: "2 \<le> length [''client.py'', ''server.txt'']"
    by simp
  have h2: "new_client scripted (world ?s) = (None, ?w)"
    by (simp add: scripted_def start_def)
  have h3: "try_block (Suc (Suc 0)) scripted ([''client.py'', ''server.txt''] ! 1)
        (emit EvNewClient ?w ?s)
      = Some (Some (Raise ValueError ''Server script must be a .py or .js file''),
              emit EvNewClient ?w ?s)"
    by (simp add: main_defs)
  have h4: "exit_stack_aclose scripted (world (emit EvNewClient ?w ?s))
      = (Some (Raise OtherException ''close failed''), ?w)"
    by (simp add: scripted_def emit_def)
  from cleanup_error_leaves_main [OF h1 h2 h3 h4] show ?thesis
    by (simp add: emit_def start_def)
qed


end
